theory Spec2Isabelle
  imports Main "HOL-Library.Log_Nat"
begin

section \<open>Python numbers\<close>

text \<open>
  The services mix Python's unbounded integers (\<open>int\<close>) with double-precision floats:
  \<open>/\<close> on two integers is true division, \<open>int * float\<close> converts the integer first,
  and \<open>int(...)\<close> truncates a float toward zero. A finite double is represented by its
  exact rational value; every arithmetic operation computes the exact result and rounds it
  to the nearest double (ties to even), as IEEE 754 binary64 and CPython do. The two zeros
  are identified: no operation used by the services tells them apart.
\<close>

datatype pyfloat = Fin rat | PInf | NInf | NaN

datatype error =
  ValidationError | ResourceError | ZeroDivisionError | OverflowError | ValueError | TypeError

definition pow2 :: "int \<Rightarrow> rat" where
  "pow2 e = (if 0 \<le> e then 2 ^ nat e else 1 / 2 ^ nat (- e))"

text \<open>\<open>ilog2 x\<close> is the binary exponent of a positive rational: \<open>2^k \<le> x < 2^(k+1)\<close>.\<close>

definition ilog2 :: "rat \<Rightarrow> int" where
  "ilog2 x = (let (p, q) = quotient_of x; d = bitlen p - bitlen q
              in if pow2 d \<le> x then d else d - 1)"

text \<open>Rounding to the nearest integer, ties to the even one.\<close>

definition nearest_even :: "int \<Rightarrow> rat \<Rightarrow> int" where
  "nearest_even f r =
     (if r < 1 / 2 then f
      else if 1 / 2 < r then f + 1
      else if even f then f else f + 1)"

definition round_from :: "int \<Rightarrow> rat \<Rightarrow> int" where
  "round_from f y = nearest_even f (y - of_int f)"

definition round_half_even :: "rat \<Rightarrow> int" where
  "round_half_even y = round_from \<lfloor>y\<rfloor> y"

text \<open>
  Rounding of an exact result to binary64: 53 significant bits, so that the unit in the
  last place of \<open>x\<close> is \<open>2^(e-52)\<close> for \<open>2^e \<le> |x|\<close>, never below \<open>2^(-1074)\<close>
  (subnormals), and overflow to an infinity from \<open>2^1024 - 2^970\<close> on.
\<close>

definition ulp_exp :: "rat \<Rightarrow> int" where
  "ulp_exp x = max (ilog2 \<bar>x\<bar>) (- 1022) - 52"

definition pack :: "int \<Rightarrow> int \<Rightarrow> bool \<Rightarrow> pyfloat" where
  "pack e m positive =
     (if 971 < e \<or> (e = 971 \<and> 2 ^ 53 \<le> \<bar>m\<bar>)
      then (if positive then PInf else NInf)
      else Fin (of_int m * pow2 e))"

definition round_at :: "int \<Rightarrow> rat \<Rightarrow> pyfloat" where
  "round_at e x = pack e (round_half_even (x / pow2 e)) (0 < x)"

definition round64 :: "rat \<Rightarrow> pyfloat" where
  "round64 x = (if x = 0 then Fin 0 else round_at (ulp_exp x) x)"

text \<open>A float literal of the source, such as \<open>0.7\<close>, is the double nearest to it.\<close>

definition lit :: "rat \<Rightarrow> pyfloat" where
  "lit x = round64 x"

fun fmul :: "pyfloat \<Rightarrow> pyfloat \<Rightarrow> pyfloat" where
  "fmul (Fin a) (Fin b) = round64 (a * b)"
| "fmul NaN _ = NaN"
| "fmul _ NaN = NaN"
| "fmul (Fin a) PInf = (if a = 0 then NaN else if 0 < a then PInf else NInf)"
| "fmul (Fin a) NInf = (if a = 0 then NaN else if 0 < a then NInf else PInf)"
| "fmul PInf (Fin b) = (if b = 0 then NaN else if 0 < b then PInf else NInf)"
| "fmul NInf (Fin b) = (if b = 0 then NaN else if 0 < b then NInf else PInf)"
| "fmul PInf PInf = PInf"
| "fmul PInf NInf = NInf"
| "fmul NInf PInf = NInf"
| "fmul NInf NInf = PInf"

fun fadd :: "pyfloat \<Rightarrow> pyfloat \<Rightarrow> pyfloat" where
  "fadd (Fin a) (Fin b) = round64 (a + b)"
| "fadd NaN _ = NaN"
| "fadd _ NaN = NaN"
| "fadd PInf NInf = NaN"
| "fadd NInf PInf = NaN"
| "fadd PInf _ = PInf"
| "fadd NInf _ = NInf"
| "fadd _ PInf = PInf"
| "fadd _ NInf = NInf"

text \<open>Float division raises \<open>ZeroDivisionError\<close> on a zero divisor, whatever the dividend.\<close>

fun fdiv :: "pyfloat \<Rightarrow> pyfloat \<Rightarrow> error + pyfloat" where
  "fdiv (Fin a) (Fin b) = (if b = 0 then Inl ZeroDivisionError else Inr (round64 (a / b)))"
| "fdiv NaN (Fin b) = (if b = 0 then Inl ZeroDivisionError else Inr NaN)"
| "fdiv PInf (Fin b) =
     (if b = 0 then Inl ZeroDivisionError else Inr (if 0 < b then PInf else NInf))"
| "fdiv NInf (Fin b) =
     (if b = 0 then Inl ZeroDivisionError else Inr (if 0 < b then NInf else PInf))"
| "fdiv _ NaN = Inr NaN"
| "fdiv NaN _ = Inr NaN"
| "fdiv (Fin a) _ = Inr (Fin 0)"
| "fdiv _ _ = Inr NaN"

fun fless :: "pyfloat \<Rightarrow> pyfloat \<Rightarrow> bool" where
  "fless (Fin a) (Fin b) = (a < b)"
| "fless NaN _ = False"
| "fless _ NaN = False"
| "fless NInf NInf = False"
| "fless NInf _ = True"
| "fless PInf _ = False"
| "fless _ PInf = True"
| "fless _ NInf = False"

text \<open>\<open>float(n)\<close> as the mixed operators apply it: correctly rounded, or \<open>OverflowError\<close>.\<close>

definition int_to_float :: "int \<Rightarrow> error + pyfloat" where
  "int_to_float n = (case round64 (of_int n) of Fin y \<Rightarrow> Inr (Fin y) | _ \<Rightarrow> Inl OverflowError)"

text \<open>\<open>a / b\<close> on two integers: the correctly rounded quotient.\<close>

definition int_truediv :: "int \<Rightarrow> int \<Rightarrow> error + pyfloat" where
  "int_truediv a b =
     (if b = 0 then Inl ZeroDivisionError
      else case round64 (of_int a / of_int b) of
             Fin y \<Rightarrow> Inr (Fin y)
           | _ \<Rightarrow> Inl OverflowError)"

definition trunc :: "rat \<Rightarrow> int" where
  "trunc q = (if 0 \<le> q then \<lfloor>q\<rfloor> else \<lceil>q\<rceil>)"

text \<open>\<open>int(x)\<close> on a float.\<close>

fun py_int :: "pyfloat \<Rightarrow> error + int" where
  "py_int (Fin q) = Inr (trunc q)"
| "py_int NaN = Inl ValueError"
| "py_int _ = Inl OverflowError"

text \<open>Sequencing of a computation that may raise.\<close>

definition bind :: "error + 'a \<Rightarrow> ('a \<Rightarrow> error + 'b) \<Rightarrow> error + 'b" where
  "bind m f = (case m of Inl e \<Rightarrow> Inl e | Inr v \<Rightarrow> f v)"

text \<open>\<open>n * x\<close> and \<open>n + x\<close> for an integer \<open>n\<close> and a float \<open>x\<close>.\<close>

definition int_mul_float :: "int \<Rightarrow> pyfloat \<Rightarrow> error + pyfloat" where
  "int_mul_float n x = bind (int_to_float n) (\<lambda>nf. Inr (fmul nf x))"

definition int_add_float :: "int \<Rightarrow> pyfloat \<Rightarrow> error + pyfloat" where
  "int_add_float n x = bind (int_to_float n) (\<lambda>nf. Inr (fadd nf x))"

section \<open>database/models.py\<close>

datatype UnitType = INFANTRY | TANK | SHIP | AIRCRAFT

datatype DevelopmentCategory = INFRASTRUCTURE | RESEARCH | TRADE

datatype DevelopmentStatus = IN_PROGRESS | COMPLETED | CANCELLED

datatype BattleResult = VICTORY | DEFEAT | DRAW

datatype GovernmentType =
  DEMOCRACY | MONARCHY | DICTATORSHIP | REPUBLIC | THEOCRACY | GOV_COMMUNIST | GOV_SOCIALIST
  | OLIGARCHY

datatype Ideology =
  CAPITALIST | COMMUNIST | SOCIALIST | FASCIST | LIBERAL | CONSERVATIVE | NATIONALIST
  | RELIGIOUS | PROGRESSIVE

text \<open>Timestamps (\<open>datetime\<close>) are counted in microseconds, the resolution of the type.\<close>

type_synonym datetime = int

record Country =
  co_id :: int
  co_name :: string
  co_user_id :: int
  co_government_type :: GovernmentType
  co_ideology :: Ideology
  co_population :: int
  co_gdp :: int
  co_military_power :: int
  co_resources :: int
  co_created_at :: datetime
  co_last_updated :: datetime

record MilitaryUnit =
  mu_id :: int
  mu_country_id :: int
  mu_unit_type :: UnitType
  mu_quantity :: int
  mu_technology_level :: int

text \<open>The three bonus columns are nullable floats.\<close>

record Development =
  dev_id :: int
  dev_country_id :: int
  dev_category :: DevelopmentCategory
  dev_name :: string
  dev_description :: string
  dev_resource_cost :: int
  dev_start_time :: datetime
  dev_end_time :: datetime
  dev_status :: DevelopmentStatus
  dev_infrastructure_bonus :: "pyfloat option"
  dev_research_bonus :: "pyfloat option"
  dev_trade_bonus :: "pyfloat option"

record Battle =
  ba_id :: int
  ba_attacker_id :: int
  ba_defender_id :: int
  ba_attacker_strength :: int
  ba_defender_strength :: int
  ba_result :: BattleResult
  ba_casualties_attacker :: int
  ba_casualties_defender :: int
  ba_territory_gained :: int
  ba_resources_captured :: int
  ba_battle_date :: datetime
  ba_battle_report :: string

record TransactionLog =
  tl_id :: int
  tl_country_id :: int
  tl_transaction_type :: string
  tl_amount :: int
  tl_description :: string
  tl_timestamp :: datetime

text \<open>
  The store: one list of rows per table, in the order the queries return them. A query's
  \<open>.first()\<close> is the first matching row, \<open>.all()\<close> the matching rows in order.
\<close>

record database =
  countries :: "Country list"
  military_units :: "MilitaryUnit list"
  developments :: "Development list"
  battles :: "Battle list"
  transaction_logs :: "TransactionLog list"

text \<open>The key the store gives a new row of a table with an integer primary key.\<close>

definition next_id :: "int list \<Rightarrow> int" where
  "next_id ids = fold max ids 0 + 1"

text \<open>Assignment to an attribute of the object a \<open>.first()\<close> returned.\<close>

fun update_first :: "('a \<Rightarrow> bool) \<Rightarrow> ('a \<Rightarrow> 'a) \<Rightarrow> 'a list \<Rightarrow> 'a list" where
  "update_first P f [] = []"
| "update_first P f (x # xs) = (if P x then f x # xs else x # update_first P f xs)"

section \<open>services/military\_service.py: strength\<close>

fun unit_costs :: "UnitType \<Rightarrow> int" where
  "unit_costs INFANTRY = 10"
| "unit_costs TANK = 50"
| "unit_costs SHIP = 100"
| "unit_costs AIRCRAFT = 80"

fun unit_strength :: "UnitType \<Rightarrow> int" where
  "unit_strength INFANTRY = 1"
| "unit_strength TANK = 5"
| "unit_strength SHIP = 10"
| "unit_strength AIRCRAFT = 8"

definition get_military_units :: "database \<Rightarrow> int \<Rightarrow> MilitaryUnit list" where
  "get_military_units db country_id =
     filter (\<lambda>u. mu_country_id u = country_id) (military_units db)"

definition get_military_unit :: "database \<Rightarrow> int \<Rightarrow> UnitType \<Rightarrow> MilitaryUnit option" where
  "get_military_unit db country_id unit_type =
     find (\<lambda>u. mu_country_id u = country_id \<and> mu_unit_type u = unit_type) (military_units db)"

definition calculate_military_strength :: "database \<Rightarrow> int \<Rightarrow> int" where
  "calculate_military_strength db country_id =
     fold (\<lambda>unit total_strength.
             total_strength
             + mu_quantity unit * unit_strength (mu_unit_type unit) * mu_technology_level unit)
          (get_military_units db country_id) 0"

section \<open>Strings of the source\<close>

text \<open>\<open>str(n)\<close> for an integer, as the f-strings of the services print it.\<close>

definition digit :: "nat \<Rightarrow> char" where
  "digit d = ''0123456789'' ! d"

function str_nat :: "nat \<Rightarrow> string" where
  "str_nat n = (if n < 10 then [digit n] else str_nat (n div 10) @ [digit (n mod 10)])"
  by pat_completeness auto
termination
  by (relation "measure id") auto

definition str_int :: "int \<Rightarrow> string" where
  "str_int i = (if i < 0 then CHR ''-'' # str_nat (nat (- i)) else str_nat (nat i))"

fun UnitType_value :: "UnitType \<Rightarrow> string" where
  "UnitType_value INFANTRY = ''infantry''"
| "UnitType_value TANK = ''tank''"
| "UnitType_value SHIP = ''ship''"
| "UnitType_value AIRCRAFT = ''aircraft''"

text \<open>The enum constructors called on a string: \<open>None\<close> stands for the \<open>ValueError\<close>.\<close>

definition UnitType_of :: "string \<Rightarrow> UnitType option" where
  "UnitType_of s =
     (if s = ''infantry'' then Some INFANTRY
      else if s = ''tank'' then Some TANK
      else if s = ''ship'' then Some SHIP
      else if s = ''aircraft'' then Some AIRCRAFT
      else None)"

definition GovernmentType_of :: "string \<Rightarrow> GovernmentType option" where
  "GovernmentType_of s =
     (if s = ''democracy'' then Some DEMOCRACY
      else if s = ''monarchy'' then Some MONARCHY
      else if s = ''dictatorship'' then Some DICTATORSHIP
      else if s = ''republic'' then Some REPUBLIC
      else if s = ''theocracy'' then Some THEOCRACY
      else if s = ''communist'' then Some GOV_COMMUNIST
      else if s = ''socialist'' then Some GOV_SOCIALIST
      else if s = ''oligarchy'' then Some OLIGARCHY
      else None)"

definition Ideology_of :: "string \<Rightarrow> Ideology option" where
  "Ideology_of s =
     (if s = ''capitalist'' then Some CAPITALIST
      else if s = ''communist'' then Some COMMUNIST
      else if s = ''socialist'' then Some SOCIALIST
      else if s = ''fascist'' then Some FASCIST
      else if s = ''liberal'' then Some LIBERAL
      else if s = ''conservative'' then Some CONSERVATIVE
      else if s = ''nationalist'' then Some NATIONALIST
      else if s = ''religious'' then Some RELIGIOUS
      else if s = ''progressive'' then Some PROGRESSIVE
      else None)"

definition DevelopmentCategory_of :: "string \<Rightarrow> DevelopmentCategory option" where
  "DevelopmentCategory_of s =
     (if s = ''infrastructure'' then Some INFRASTRUCTURE
      else if s = ''research'' then Some RESEARCH
      else if s = ''trade'' then Some TRADE
      else None)"

section \<open>services/country\_service.py\<close>

text \<open>
  Every operation on the store takes the store and returns its result, a value or the
  exception raised, together with the store as the last \<open>commit\<close> left it: the session
  of a request that raised is closed without a commit (\<open>get_db\<close>). The clock
  (\<open>datetime.utcnow()\<close>) is the parameter \<open>now\<close>. \<open>TransactionLog\<close> is the model class
  of \<open>database/models.py\<close>.
\<close>

definition INITIAL_RESOURCES :: int where
  "INITIAL_RESOURCES = 1000"

definition get_country_by_id :: "database \<Rightarrow> int \<Rightarrow> Country option" where
  "get_country_by_id db country_id = find (\<lambda>c. co_id c = country_id) (countries db)"

definition get_country_by_name :: "database \<Rightarrow> string \<Rightarrow> Country option" where
  "get_country_by_name db name = find (\<lambda>c. co_name c = name) (countries db)"

definition get_countries_by_user_id :: "database \<Rightarrow> int \<Rightarrow> Country list" where
  "get_countries_by_user_id db user_id = filter (\<lambda>c. co_user_id c = user_id) (countries db)"

definition initial_units :: "(UnitType \<times> int) list" where
  "initial_units = [(INFANTRY, 100), (TANK, 10), (SHIP, 5), (AIRCRAFT, 5)]"

definition add_unit :: "int \<Rightarrow> UnitType \<times> int \<Rightarrow> MilitaryUnit list \<Rightarrow> MilitaryUnit list" where
  "add_unit country_id tq units =
     units @ [\<lparr>mu_id = next_id (map mu_id units), mu_country_id = country_id,
               mu_unit_type = fst tq, mu_quantity = snd tq, mu_technology_level = 1\<rparr>]"

definition create_initial_military_units :: "int \<Rightarrow> database \<Rightarrow> database" where
  "create_initial_military_units country_id db =
     db\<lparr>military_units := fold (add_unit country_id) initial_units (military_units db)\<rparr>"

definition create_country ::
  "int \<Rightarrow> string \<Rightarrow> string \<Rightarrow> string \<Rightarrow> datetime \<Rightarrow> database
   \<Rightarrow> (error + Country) \<times> database" where
  "create_country user_id name government_type ideology now db =
     (if get_country_by_name db name \<noteq> None then (Inl ValidationError, db)
      else if get_countries_by_user_id db user_id \<noteq> [] then (Inl ResourceError, db)
      else case GovernmentType_of government_type of
        None \<Rightarrow> (Inl ValidationError, db)
      | Some gov_type_enum \<Rightarrow>
         (case Ideology_of ideology of
            None \<Rightarrow> (Inl ValidationError, db)
          | Some ideology_enum \<Rightarrow>
             (let country =
                    \<lparr>co_id = next_id (map co_id (countries db)), co_name = name,
                     co_user_id = user_id, co_government_type = gov_type_enum,
                     co_ideology = ideology_enum, co_population = 1000000,
                     co_gdp = 1000000000, co_military_power = 10,
                     co_resources = INITIAL_RESOURCES, co_created_at = now,
                     co_last_updated = now\<rparr>;
                  db1 = db\<lparr>countries := countries db @ [country]\<rparr>
              in (Inr country, create_initial_military_units (co_id country) db1))))"

text \<open>The dictionary \<open>get_country_status\<close> returns, without its two date strings.\<close>

record CountryStatus =
  st_id :: int
  st_name :: string
  st_government_type :: GovernmentType
  st_ideology :: Ideology
  st_population :: int
  st_gdp :: int
  st_military_power :: int
  st_resources :: int
  st_units :: "string \<rightharpoonup> int \<times> int"
  st_total_strength :: int

definition get_country_status :: "int \<Rightarrow> database \<Rightarrow> error + CountryStatus" where
  "get_country_status country_id db =
     (case get_country_by_id db country_id of
        None \<Rightarrow> Inl ValidationError
      | Some country \<Rightarrow>
         (let military_units = filter (\<lambda>u. mu_country_id u = country_id) (military_units db);
              military_info =
                fold (\<lambda>unit info.
                        info(UnitType_value (mu_unit_type unit)
                             \<mapsto> (mu_quantity unit, mu_technology_level unit)))
                     military_units Map.empty;
              total_strength =
                sum_list (map (\<lambda>unit. mu_quantity unit * mu_technology_level unit)
                              military_units)
          in Inr \<lparr>st_id = co_id country, st_name = co_name country,
                  st_government_type = co_government_type country,
                  st_ideology = co_ideology country,
                  st_population = co_population country, st_gdp = co_gdp country,
                  st_military_power = co_military_power country,
                  st_resources = co_resources country,
                  st_units = military_info, st_total_strength = total_strength\<rparr>))"

definition update_resources ::
  "int \<Rightarrow> int \<Rightarrow> string \<Rightarrow> datetime \<Rightarrow> database \<Rightarrow> (error + int \<times> int) \<times> database" where
  "update_resources country_id amount description now db =
     (case get_country_by_id db country_id of
        None \<Rightarrow> (Inl ValidationError, db)
      | Some country \<Rightarrow>
         (let previous_resources = co_resources country
          in if amount < 0 \<and> co_resources country + amount < 0 then (Inl ResourceError, db)
             else
               (let transaction =
                      \<lparr>tl_id = next_id (map tl_id (transaction_logs db)),
                       tl_country_id = country_id, tl_transaction_type = ''resources'',
                       tl_amount = amount, tl_description = description,
                       tl_timestamp = now\<rparr>;
                    db' = db\<lparr>countries :=
                               update_first (\<lambda>c. co_id c = country_id)
                                 (\<lambda>c. c\<lparr>co_resources := co_resources c + amount,
                                        co_last_updated := now\<rparr>)
                                 (countries db),
                             transaction_logs := transaction_logs db @ [transaction]\<rparr>
                in (Inr (previous_resources, previous_resources + amount), db'))))"

section \<open>services/military\_service.py: building\<close>

definition build_army ::
  "int \<Rightarrow> string \<Rightarrow> int \<Rightarrow> datetime \<Rightarrow> database
   \<Rightarrow> (error + MilitaryUnit \<times> int) \<times> database" where
  "build_army country_id unit_type_str quantity now db =
     (case UnitType_of unit_type_str of
        None \<Rightarrow> (Inl ValidationError, db)
      | Some unit_type \<Rightarrow>
         if quantity \<le> 0 then (Inl ValidationError, db)
         else
           (let cost = unit_costs unit_type * quantity
            in case get_country_by_id db country_id of
                 None \<Rightarrow> (Inl ValidationError, db)
               | Some country \<Rightarrow>
                  if co_resources country < cost then (Inl ResourceError, db)
                  else
                    (let units =
                           (case get_military_unit db country_id unit_type of
                              Some unit \<Rightarrow> military_units db
                            | None \<Rightarrow> add_unit country_id (unit_type, 0) (military_units db));
                         is_unit = (\<lambda>u. mu_country_id u = country_id \<and> mu_unit_type u = unit_type);
                         units' =
                           update_first is_unit
                             (\<lambda>u. u\<lparr>mu_quantity := mu_quantity u + quantity\<rparr>) units;
                         transaction =
                           \<lparr>tl_id = next_id (map tl_id (transaction_logs db)),
                            tl_country_id = country_id, tl_transaction_type = ''build_army'',
                            tl_amount = - cost,
                            tl_description =
                              ''Built '' @ str_int quantity @ '' ''
                              @ UnitType_value unit_type @ '' units'',
                            tl_timestamp = now\<rparr>;
                         db' = db\<lparr>countries :=
                                    update_first (\<lambda>c. co_id c = country_id)
                                      (\<lambda>c. c\<lparr>co_resources := co_resources c - cost,
                                             co_last_updated := now\<rparr>)
                                      (countries db),
                                  military_units := units',
                                  transaction_logs := transaction_logs db @ [transaction]\<rparr>
                     in case find is_unit units' of
                          Some unit \<Rightarrow> (Inr (unit, cost), db')
                        | None \<Rightarrow> (Inl ValidationError, db))))"

section \<open>services/military\_service.py: battles\<close>

text \<open>
  What a call of \<open>attack\<close> takes from outside: the four draws of \<open>random.uniform\<close> in the
  order the code makes them, the two lines \<open>random.choice\<close> picks for the report, the clock,
  and the clock as \<open>strftime\<close> prints it.
\<close>

record battle_env =
  random_factor :: pyfloat
  base_casualty_rate :: pyfloat
  territory_roll :: pyfloat
  resources_roll :: pyfloat
  event1 :: string
  event2 :: string
  battle_now :: datetime
  battle_now_str :: string

definition float_mul_int :: "pyfloat \<Rightarrow> int \<Rightarrow> error + pyfloat" where
  "float_mul_int x n = bind (int_to_float n) (\<lambda>nf. Inr (fmul x nf))"

definition battle_outcome :: "pyfloat \<Rightarrow> BattleResult" where
  "battle_outcome adjusted_ratio =
     (if fless (lit (12 / 10)) adjusted_ratio then VICTORY
      else if fless adjusted_ratio (lit (8 / 10)) then DEFEAT
      else DRAW)"

definition casualty_rates :: "BattleResult \<Rightarrow> pyfloat \<Rightarrow> pyfloat \<times> pyfloat" where
  "casualty_rates result base_rate =
     (case result of
        VICTORY \<Rightarrow> (fmul base_rate (lit (7 / 10)), fmul base_rate (lit (13 / 10)))
      | DEFEAT \<Rightarrow> (fmul base_rate (lit (13 / 10)), fmul base_rate (lit (7 / 10)))
      | DRAW \<Rightarrow> (base_rate, base_rate))"

definition calculate_battle_result ::
  "battle_env \<Rightarrow> int \<Rightarrow> int \<Rightarrow> Country \<Rightarrow> Country
   \<Rightarrow> error + BattleResult \<times> int \<times> int \<times> int \<times> int" where
  "calculate_battle_result env attacker_strength defender_strength attacker defender =
     bind (int_truediv attacker_strength (max defender_strength 1)) (\<lambda>strength_ratio.
       let adjusted_ratio = fmul strength_ratio (random_factor env);
           result = battle_outcome adjusted_ratio;
           (attacker_casualty_rate, defender_casualty_rate) =
             casualty_rates result (base_casualty_rate env)
       in bind (bind (int_mul_float attacker_strength attacker_casualty_rate) py_int)
            (\<lambda>casualties_attacker.
          bind (bind (int_mul_float defender_strength defender_casualty_rate) py_int)
            (\<lambda>casualties_defender.
          if result = VICTORY
          then bind (bind (float_mul_int (territory_roll env) 100) py_int)
                 (\<lambda>territory_gained.
               bind (bind (float_mul_int (resources_roll env) (co_resources defender)) py_int)
                 (\<lambda>resources_captured.
               Inr (result, casualties_attacker, casualties_defender, territory_gained,
                    resources_captured)))
          else Inr (result, casualties_attacker, casualties_defender, 0, 0))))"

text \<open>One turn of the loop of \<open>_apply_casualties\<close>: the units this row loses.\<close>

definition unit_casualties :: "int \<Rightarrow> int \<Rightarrow> MilitaryUnit \<Rightarrow> error + int" where
  "unit_casualties total_casualties total_strength unit =
     bind (int_truediv (mu_quantity unit * unit_strength (mu_unit_type unit)) total_strength)
       (\<lambda>unit_proportion.
     bind (bind (int_mul_float total_casualties unit_proportion) py_int)
       (\<lambda>unit_casualties. Inr (min unit_casualties (mu_quantity unit))))"

fun map_result :: "('a \<Rightarrow> error + 'b) \<Rightarrow> 'a list \<Rightarrow> error + 'b list" where
  "map_result f [] = Inr []"
| "map_result f (x # xs) =
     bind (f x) (\<lambda>y. bind (map_result f xs) (\<lambda>ys. Inr (y # ys)))"

definition casualties_strength :: "MilitaryUnit list \<Rightarrow> int" where
  "casualties_strength units =
     sum_list (map (\<lambda>unit. mu_quantity unit * unit_strength (mu_unit_type unit)) units)"

text \<open>
  The body of \<open>_apply_casualties\<close> on the rows the query returned: the rows after the loop.
\<close>

definition distribute_casualties :: "MilitaryUnit list \<Rightarrow> int \<Rightarrow> error + MilitaryUnit list" where
  "distribute_casualties units total_casualties =
     (let total_strength = casualties_strength units
      in if units = [] \<or> total_strength = 0 then Inr units
         else map_result
                (\<lambda>unit. bind (unit_casualties total_casualties total_strength unit)
                   (\<lambda>lost. Inr (unit\<lparr>mu_quantity := mu_quantity unit - lost\<rparr>)))
                units)"

text \<open>Writing the rows of one country back into the table, in place.\<close>

fun write_back :: "int \<Rightarrow> MilitaryUnit list \<Rightarrow> MilitaryUnit list \<Rightarrow> MilitaryUnit list" where
  "write_back country_id [] new = []"
| "write_back country_id (u # us) new =
     (if mu_country_id u = country_id
      then (case new of [] \<Rightarrow> u # us | n # ns \<Rightarrow> n # write_back country_id us ns)
      else u # write_back country_id us new)"

definition apply_casualties :: "int \<Rightarrow> int \<Rightarrow> database \<Rightarrow> error + database" where
  "apply_casualties country_id total_casualties db =
     bind (distribute_casualties (get_military_units db country_id) total_casualties)
       (\<lambda>units. Inr (db\<lparr>military_units := write_back country_id (military_units db) units\<rparr>))"

fun BattleResult_value :: "BattleResult \<Rightarrow> string" where
  "BattleResult_value VICTORY = ''victory''"
| "BattleResult_value DEFEAT = ''defeat''"
| "BattleResult_value DRAW = ''draw''"

fun BattleResult_upper :: "BattleResult \<Rightarrow> string" where
  "BattleResult_upper VICTORY = ''VICTORY''"
| "BattleResult_upper DEFEAT = ''DEFEAT''"
| "BattleResult_upper DRAW = ''DRAW''"

definition casualty_percent :: "int \<Rightarrow> int \<Rightarrow> error + int" where
  "casualty_percent casualties strength =
     bind (int_truediv casualties (max strength 1)) (\<lambda>r.
     bind (float_mul_int r 100) py_int)"

definition nl :: string where
  "nl = [CHR 0x0A]"

definition generate_battle_report ::
  "battle_env \<Rightarrow> Country \<Rightarrow> Country \<Rightarrow> int \<Rightarrow> int \<Rightarrow> BattleResult \<Rightarrow> int \<Rightarrow> int \<Rightarrow> int
   \<Rightarrow> int \<Rightarrow> error + string" where
  "generate_battle_report env attacker defender attacker_strength defender_strength result
       casualties_attacker casualties_defender territory_gained resources_captured =
     bind (casualty_percent casualties_attacker attacker_strength) (\<lambda>pa.
     bind (casualty_percent casualties_defender defender_strength) (\<lambda>pd.
     Inr (''Battle Report: '' @ co_name attacker @ '' vs '' @ co_name defender @ nl
          @ ''Date: '' @ battle_now_str env @ nl @ nl
          @ ''Initial Forces:'' @ nl
          @ ''- '' @ co_name attacker @ '': '' @ str_int attacker_strength
          @ '' military strength'' @ nl
          @ ''- '' @ co_name defender @ '': '' @ str_int defender_strength
          @ '' military strength'' @ nl @ nl
          @ ''Battle Details:'' @ nl
          @ ''- '' @ event1 env @ nl
          @ ''- '' @ event2 env @ nl @ nl
          @ ''Outcome: '' @ BattleResult_upper result @ nl @ nl
          @ ''Casualties:'' @ nl
          @ ''- '' @ co_name attacker @ '': '' @ str_int casualties_attacker
          @ '' ('' @ str_int pa @ ''%)'' @ nl
          @ ''- '' @ co_name defender @ '': '' @ str_int casualties_defender
          @ '' ('' @ str_int pd @ ''%)'' @ nl @ nl
          @ (if result = VICTORY
             then ''Spoils of War:'' @ nl
                  @ ''- Territory Gained: '' @ str_int territory_gained @ ''%'' @ nl
                  @ ''- Resources Captured: '' @ str_int resources_captured @ nl
             else []))))"

text \<open>The transfer of the spoils, on the two rows \<open>attack\<close> loaded.\<close>

definition transfer_resources ::
  "BattleResult \<Rightarrow> int \<Rightarrow> int \<Rightarrow> int \<Rightarrow> Country list \<Rightarrow> Country list" where
  "transfer_resources result attacker_id defender_id resources_captured cs =
     (if result = VICTORY
      then update_first (\<lambda>c. co_id c = defender_id)
             (\<lambda>c. c\<lparr>co_resources := co_resources c - resources_captured\<rparr>)
             (update_first (\<lambda>c. co_id c = attacker_id)
                (\<lambda>c. c\<lparr>co_resources := co_resources c + resources_captured\<rparr>) cs)
      else cs)"

definition attack ::
  "int \<Rightarrow> int \<Rightarrow> battle_env \<Rightarrow> database \<Rightarrow> (error + Battle) \<times> database" where
  "attack attacker_id defender_id env db =
     (case get_country_by_id db attacker_id of
        None \<Rightarrow> (Inl ValidationError, db)
      | Some attacker \<Rightarrow>
     (case get_country_by_id db defender_id of
        None \<Rightarrow> (Inl ValidationError, db)
      | Some defender \<Rightarrow>
     if attacker_id = defender_id then (Inl ValidationError, db)
     else
       (let attacker_strength = calculate_military_strength db attacker_id;
            defender_strength = calculate_military_strength db defender_id
        in if attacker_strength \<le> 0 then (Inl ResourceError, db)
           else
     (case calculate_battle_result env attacker_strength defender_strength attacker defender of
        Inl e \<Rightarrow> (Inl e, db)
      | Inr (result, casualties_attacker, casualties_defender, territory_gained,
             resources_captured) \<Rightarrow>
     (case apply_casualties attacker_id casualties_attacker db of
        Inl e \<Rightarrow> (Inl e, db)
      | Inr db1 \<Rightarrow>
     (case apply_casualties defender_id casualties_defender db1 of
        Inl e \<Rightarrow> (Inl e, db1)
      | Inr db2 \<Rightarrow>
     (case generate_battle_report env attacker defender attacker_strength defender_strength
             result casualties_attacker casualties_defender territory_gained
             resources_captured of
        Inl e \<Rightarrow> (Inl e, db2)
      | Inr battle_report \<Rightarrow>
         (let battle =
                \<lparr>ba_id = next_id (map ba_id (battles db2)), ba_attacker_id = attacker_id,
                 ba_defender_id = defender_id, ba_attacker_strength = attacker_strength,
                 ba_defender_strength = defender_strength, ba_result = result,
                 ba_casualties_attacker = casualties_attacker,
                 ba_casualties_defender = casualties_defender,
                 ba_territory_gained = territory_gained,
                 ba_resources_captured = resources_captured,
                 ba_battle_date = battle_now env, ba_battle_report = battle_report\<rparr>
          in (Inr battle,
              db2\<lparr>countries :=
                     transfer_resources result attacker_id defender_id resources_captured
                       (countries db2),
                   battles := battles db2 @ [battle]\<rparr>)))))))))"

section \<open>services/development\_service.py\<close>

record DevelopmentOption =
  opt_name :: string
  opt_description :: string
  opt_cost :: int
  opt_time_days :: int
  opt_infrastructure_bonus :: rat
  opt_research_bonus :: rat
  opt_trade_bonus :: rat

definition mk_option ::
  "string \<Rightarrow> string \<Rightarrow> int \<Rightarrow> int \<Rightarrow> rat \<Rightarrow> rat \<Rightarrow> rat \<Rightarrow> DevelopmentOption" where
  "mk_option n d c t ib rb tb =
     \<lparr>opt_name = n, opt_description = d, opt_cost = c, opt_time_days = t,
      opt_infrastructure_bonus = ib, opt_research_bonus = rb, opt_trade_bonus = tb\<rparr>"

text \<open>The table of the constructor; the bonuses are the decimals the source writes.\<close>

fun development_options :: "DevelopmentCategory \<Rightarrow> DevelopmentOption list" where
  "development_options INFRASTRUCTURE =
     [mk_option ''Road Network'' ''Improve road infrastructure to boost economy''
        200 1 (5 / 100) 0 (2 / 100),
      mk_option ''Power Grid'' ''Upgrade power generation and distribution''
        300 2 (8 / 100) (1 / 100) (1 / 100),
      mk_option ''Urban Development'' ''Expand and modernize cities''
        500 3 (1 / 10) (2 / 100) (3 / 100)]"
| "development_options RESEARCH =
     [mk_option ''Basic Research'' ''Fund basic scientific research''
        250 2 0 (5 / 100) 0,
      mk_option ''Military Technology'' ''Develop advanced military technology''
        400 3 0 (8 / 100) (1 / 100),
      mk_option ''Advanced Research Center'' ''Build a cutting-edge research facility''
        600 5 (2 / 100) (12 / 100) (2 / 100)]"
| "development_options TRADE =
     [mk_option ''Trade Agreements'' ''Negotiate favorable trade agreements''
        150 1 0 0 (5 / 100),
      mk_option ''Port Expansion'' ''Expand port facilities for international trade''
        350 2 (3 / 100) 0 (8 / 100),
      mk_option ''Global Trade Network'' ''Establish a global trade network''
        550 4 (2 / 100) (1 / 100) (15 / 100)]"

text \<open>The last \<open>datetime\<close>, 9999-12-31 23:59:59.999999, counted from 0001-01-01.\<close>

definition datetime_max :: datetime where
  "datetime_max = 3652059 * 86400 * 1000000 - 1"

definition start_development ::
  "int \<Rightarrow> string \<Rightarrow> string \<Rightarrow> datetime \<Rightarrow> database \<Rightarrow> (error + Development) \<times> database" where
  "start_development country_id category_str option_name now db =
     (case DevelopmentCategory_of category_str of
        None \<Rightarrow> (Inl ValidationError, db)
      | Some category \<Rightarrow>
     (case find (\<lambda>opt. opt_name opt = option_name) (development_options category) of
        None \<Rightarrow> (Inl ValidationError, db)
      | Some option \<Rightarrow>
     (case get_country_by_id db country_id of
        None \<Rightarrow> (Inl ValidationError, db)
      | Some country \<Rightarrow>
     if co_resources country < opt_cost option then (Inl ResourceError, db)
     else
       (let time_seconds = opt_time_days option * 86400;
            end_time = now + time_seconds * 1000000
        in if datetime_max < end_time then (Inl OverflowError, db)
           else
             (let development =
                    \<lparr>dev_id = next_id (map dev_id (developments db)),
                     dev_country_id = country_id, dev_category = category,
                     dev_name = opt_name option, dev_description = opt_description option,
                     dev_resource_cost = opt_cost option, dev_start_time = now,
                     dev_end_time = end_time, dev_status = IN_PROGRESS,
                     dev_infrastructure_bonus = Some (lit (opt_infrastructure_bonus option)),
                     dev_research_bonus = Some (lit (opt_research_bonus option)),
                     dev_trade_bonus = Some (lit (opt_trade_bonus option))\<rparr>;
                  transaction =
                    \<lparr>tl_id = next_id (map tl_id (transaction_logs db)),
                     tl_country_id = country_id, tl_transaction_type = ''development'',
                     tl_amount = - opt_cost option,
                     tl_description = ''Started development: '' @ opt_name option,
                     tl_timestamp = now\<rparr>
              in (Inr development,
                  db\<lparr>countries :=
                       update_first (\<lambda>c. co_id c = country_id)
                         (\<lambda>c. c\<lparr>co_resources := co_resources c - opt_cost option,
                                co_last_updated := now\<rparr>)
                         (countries db),
                     developments := developments db @ [development],
                     transaction_logs := transaction_logs db @ [transaction]\<rparr>))))))"

text \<open>\<open>int(n * (1 + bonus))\<close> and \<open>int(n * bonus)\<close> for a nullable float column.\<close>

definition grow :: "int \<Rightarrow> pyfloat option \<Rightarrow> error + int" where
  "grow n bonus =
     (case bonus of
        None \<Rightarrow> Inl TypeError
      | Some b \<Rightarrow> bind (int_add_float 1 b) (\<lambda>f. bind (int_mul_float n f) py_int))"

definition share :: "int \<Rightarrow> pyfloat option \<Rightarrow> error + int" where
  "share n bonus =
     (case bonus of
        None \<Rightarrow> Inl TypeError
      | Some b \<Rightarrow> bind (int_mul_float n b) py_int)"

text \<open>The three assignments of the loop body of \<open>check_completed_developments\<close>.\<close>

definition apply_bonuses :: "Development \<Rightarrow> datetime \<Rightarrow> Country \<Rightarrow> error + Country" where
  "apply_bonuses development now country =
     bind (grow (co_gdp country) (dev_infrastructure_bonus development)) (\<lambda>gdp'.
     bind (grow (co_military_power country) (dev_research_bonus development)) (\<lambda>power'.
     bind (share (co_resources country) (dev_trade_bonus development)) (\<lambda>gain.
     Inr (country\<lparr>co_gdp := gdp', co_military_power := power',
                  co_resources := co_resources country + gain,
                  co_last_updated := now\<rparr>))))"

fun complete_developments ::
  "Development list \<Rightarrow> datetime \<Rightarrow> Country list \<Rightarrow> error + Country list" where
  "complete_developments [] now cs = Inr cs"
| "complete_developments (development # ds) now cs =
     (case find (\<lambda>c. co_id c = dev_country_id development) cs of
        None \<Rightarrow> complete_developments ds now cs
      | Some country \<Rightarrow>
         bind (apply_bonuses development now country) (\<lambda>country'.
           complete_developments ds now
             (update_first (\<lambda>c. co_id c = dev_country_id development) (\<lambda>c. country') cs)))"

definition matured :: "datetime \<Rightarrow> Development \<Rightarrow> bool" where
  "matured now d \<longleftrightarrow> dev_status d = IN_PROGRESS \<and> dev_end_time d \<le> now"

definition check_completed_developments ::
  "datetime \<Rightarrow> database \<Rightarrow> (error + Development list) \<times> database" where
  "check_completed_developments now db =
     (let completed = filter (matured now) (developments db)
      in case complete_developments completed now (countries db) of
           Inl e \<Rightarrow> (Inl e, db)
         | Inr cs \<Rightarrow>
            (Inr (map (\<lambda>d. d\<lparr>dev_status := COMPLETED\<rparr>) completed),
             db\<lparr>countries := cs,
                developments :=
                  map (\<lambda>d. if matured now d then d\<lparr>dev_status := COMPLETED\<rparr> else d)
                      (developments db)\<rparr>))"

text \<open>\<open>timedelta.total_seconds()\<close>: the microseconds divided by \<open>10**6\<close>.\<close>

definition total_seconds :: "int \<Rightarrow> error + pyfloat" where
  "total_seconds td = int_truediv td 1000000"

text \<open>\<open>max(0, x)\<close> on a float; the integer \<open>0\<close> it may return is written \<open>Fin 0\<close>.\<close>

definition max0 :: "pyfloat \<Rightarrow> pyfloat" where
  "max0 x = (if fless (Fin 0) x then x else Fin 0)"

record DevelopmentProgress =
  pr_id :: int
  pr_status :: DevelopmentStatus
  pr_progress :: int
  pr_time_left_seconds :: pyfloat

definition progress_of :: "Development \<Rightarrow> datetime \<Rightarrow> error + int \<times> pyfloat" where
  "progress_of development now =
     (if dev_status development = COMPLETED then Inr (100, Fin 0)
      else if dev_status development = CANCELLED then Inr (0, Fin 0)
      else
        bind (total_seconds (dev_end_time development - dev_start_time development))
          (\<lambda>total_time.
        bind (total_seconds (now - dev_start_time development)) (\<lambda>elapsed_time.
        bind (fdiv elapsed_time total_time) (\<lambda>q.
        bind (bind (float_mul_int q 100) py_int) (\<lambda>p.
        bind (total_seconds (dev_end_time development - now)) (\<lambda>left.
        Inr (min 100 p, max0 left)))))))"

definition get_development_progress ::
  "int \<Rightarrow> datetime \<Rightarrow> database \<Rightarrow> error + DevelopmentProgress" where
  "get_development_progress development_id now db =
     (case find (\<lambda>d. dev_id d = development_id) (developments db) of
        None \<Rightarrow> Inl ValidationError
      | Some development \<Rightarrow>
         bind (progress_of development now) (\<lambda>(progress, time_left).
           Inr \<lparr>pr_id = dev_id development, pr_status = dev_status development,
                pr_progress = progress, pr_time_left_seconds = time_left\<rparr>))"

definition empty_db :: database where
  "empty_db = \<lparr>countries = [], military_units = [], developments = [], battles = [],
               transaction_logs = []\<rparr>"

section \<open>Example stores\<close>

definition fresh_db :: database where
  "fresh_db = snd (create_country 1 ''Utopia'' ''democracy'' ''liberal'' 0 empty_db)"

definition pinned_env :: battle_env where
  "pinned_env =
     \<lparr>random_factor = Fin 1, base_casualty_rate = lit (2 / 10),
      territory_roll = lit (1 / 10), resources_roll = lit (15 / 100),
      event1 = ''The battle began with a surprise attack at dawn.'',
      event2 = ''Air superiority played a crucial role in the battle outcome.'',
      battle_now = 0, battle_now_str = ''0001-01-01 00:00:00''\<rparr>"

definition nation :: "int \<Rightarrow> string \<Rightarrow> Country" where
  "nation i n =
     \<lparr>co_id = i, co_name = n, co_user_id = i, co_government_type = DEMOCRACY,
      co_ideology = LIBERAL, co_population = 1000000, co_gdp = 1000000000,
      co_military_power = 10, co_resources = 1000, co_created_at = 0,
      co_last_updated = 0\<rparr>"

definition unarmed_db :: database where
  "unarmed_db = empty_db\<lparr>countries := [nation 1 ''A'', nation 2 ''B'']\<rparr>"

section \<open>Properties\<close>

subsection \<open>Rounding\<close>

lemma pow2_powi: "pow2 e = 2 powi e"
  by (simp add: pow2_def power_int_def inverse_eq_divide power_one_over)

lemma pow2_pos: "0 < pow2 e"
  by (simp add: pow2_powi zero_less_power_int)

lemma pow2_add: "pow2 (a + b) = pow2 a * pow2 b"
  by (simp add: pow2_powi power_int_add)

lemma pow2_diff: "pow2 (a - b) = pow2 a / pow2 b"
  by (simp add: pow2_powi power_int_diff)

lemma pow2_mono: "a \<le> b \<Longrightarrow> pow2 a \<le> pow2 b"
  by (simp add: pow2_powi power_int_increasing)

lemma pow2_strict_mono: "a < b \<Longrightarrow> pow2 a < pow2 b"
  by (simp add: pow2_powi power_int_strict_increasing)

lemma pow2_of_nat: "0 \<le> e \<Longrightarrow> pow2 e = of_int (2 ^ nat e)"
  by (simp add: pow2_def)

lemma bitlen_rat_bounds:
  assumes "0 < p"
  shows "pow2 (bitlen p - 1) \<le> of_int p" and "of_int p < pow2 (bitlen p)"
proof -
  have b: "1 \<le> bitlen p" using assms by (simp add: bitlen_alt_def)
  from bitlen_bounds [OF assms]
  have l: "2 ^ nat (bitlen p - 1) \<le> p" and u: "p < 2 ^ nat (bitlen p)" by simp_all
  have "pow2 (bitlen p - 1) = of_int (2 ^ nat (bitlen p - 1))"
    using b by (simp add: pow2_of_nat)
  also have "\<dots> \<le> of_int p" using l by (simp only: of_int_le_iff)
  finally show "pow2 (bitlen p - 1) \<le> of_int p" .
  have "(of_int p :: rat) < of_int (2 ^ nat (bitlen p))" using u by (simp only: of_int_less_iff)
  also have "\<dots> = pow2 (bitlen p)" using b by (simp add: pow2_of_nat)
  finally show "of_int p < pow2 (bitlen p)" .
qed

lemma ilog2_bounds:
  assumes "0 < x"
  shows "pow2 (ilog2 x) \<le> x" and "x < pow2 (ilog2 x + 1)"
proof -
  obtain p q where pq: "quotient_of x = (p, q)" by force
  have q: "0 < q" using quotient_of_denom_pos [OF pq] .
  have x: "x = of_int p / of_int q" using quotient_of_div [OF pq] .
  have p: "0 < p" using assms x q by (simp add: zero_less_divide_iff)
  define d where "d = bitlen p - bitlen q"
  note bp = bitlen_rat_bounds [OF p] and bq = bitlen_rat_bounds [OF q]
  have qpos: "(0::rat) < of_int q" using q by simp
  have "x < pow2 (bitlen p) / pow2 (bitlen q - 1)"
    unfolding x using p by (intro frac_less [OF _ bp(2) pow2_pos bq(1)]) simp
  then have up: "x < pow2 (d + 1)"
    by (simp add: d_def pow2_diff [symmetric] algebra_simps)
  have "pow2 (bitlen p - 1) / pow2 (bitlen q) < x"
    unfolding x by (rule frac_less2 [OF pow2_pos bp(1) qpos bq(2)])
  then have lo: "pow2 (d - 1) < x"
    by (simp add: d_def pow2_diff [symmetric] algebra_simps)
  have il: "ilog2 x = (if pow2 d \<le> x then d else d - 1)"
    by (simp add: ilog2_def pq d_def Let_def)
  show "pow2 (ilog2 x) \<le> x" using lo by (simp add: il)
  show "x < pow2 (ilog2 x + 1)" using up by (auto simp add: il not_le)
qed

lemma ilog2_unique:
  assumes "pow2 k \<le> x" and "x < pow2 (k + 1)"
  shows "ilog2 x = k"
proof -
  have x: "0 < x" using assms(1) pow2_pos [of k] by simp
  note b = ilog2_bounds [OF x]
  have "\<not> ilog2 x < k"
  proof
    assume "ilog2 x < k"
    then have "pow2 (ilog2 x + 1) \<le> pow2 k" by (intro pow2_mono) simp
    with b(2) assms(1) show False by simp
  qed
  moreover have "\<not> k < ilog2 x"
  proof
    assume "k < ilog2 x"
    then have "pow2 (k + 1) \<le> pow2 (ilog2 x)" by (intro pow2_mono) simp
    with b(1) assms(2) show False by simp
  qed
  ultimately show ?thesis by simp
qed

lemma ilog2_mono:
  assumes "0 < x" and "x \<le> y"
  shows "ilog2 x \<le> ilog2 y"
proof (rule ccontr)
  assume "\<not> ilog2 x \<le> ilog2 y"
  then have "pow2 (ilog2 y + 1) \<le> pow2 (ilog2 x)" by (intro pow2_mono) simp
  moreover have "0 < y" using assms by simp
  ultimately show False
    using ilog2_bounds(1) [OF assms(1)] ilog2_bounds(2) [OF \<open>0 < y\<close>] assms(2) by simp
qed

lemma rhe_bounds: "\<lfloor>x\<rfloor> \<le> round_half_even x" "round_half_even x \<le> \<lfloor>x\<rfloor> + 1"
  by (simp_all add: round_half_even_def round_from_def nearest_even_def)

lemma rhe_of_int [simp]: "round_half_even (of_int n) = n"
  by (simp add: round_half_even_def round_from_def nearest_even_def)

lemma rhe_mono:
  assumes "x \<le> y"
  shows "round_half_even x \<le> round_half_even y"
proof (cases "\<lfloor>x\<rfloor> = \<lfloor>y\<rfloor>")
  case True
  with assms show ?thesis
    by (auto simp: round_half_even_def round_from_def nearest_even_def)
next
  case False
  with floor_mono [OF assms] have "\<lfloor>x\<rfloor> + 1 \<le> \<lfloor>y\<rfloor>" by simp
  with rhe_bounds(2) [of x] rhe_bounds(1) [of y] show ?thesis by simp
qed

lemma rhe_le_int: "x \<le> of_int n \<Longrightarrow> round_half_even x \<le> n"
  using rhe_mono [of x "of_int n"] by simp

lemma rhe_ge_int: "of_int n \<le> x \<Longrightarrow> n \<le> round_half_even x"
  using rhe_mono [of "of_int n" x] by simp

lemma rhe_err: "\<bar>of_int (round_half_even x) - x\<bar> \<le> 1 / 2"
proof -
  have "of_int \<lfloor>x\<rfloor> \<le> x" "x < of_int \<lfloor>x\<rfloor> + 1" by linarith+
  then show ?thesis
    by (auto simp: round_half_even_def round_from_def nearest_even_def abs_le_iff)
qed

lemma round64_unfold:
  "round64 x =
     (if x = 0 then Fin 0
      else let e = ulp_exp x;
               m = round_half_even (x / pow2 e)
           in if 971 < e \<or> (e = 971 \<and> 2 ^ 53 \<le> \<bar>m\<bar>)
              then (if 0 < x then PInf else NInf)
              else Fin (of_int m * pow2 e))"
  by (simp add: round64_def round_at_def pack_def Let_def)

text \<open>The shape of a finite rounding.\<close>

lemma round64_Fin:
  assumes "round64 x = Fin y"
  shows "y = of_int (round_half_even (x / pow2 (ulp_exp x))) * pow2 (ulp_exp x)"
proof (cases "x = 0")
  case True
  with assms rhe_of_int [of 0] show ?thesis by (simp add: round64_unfold)
next
  case False
  with assms show ?thesis
    by (auto simp: round64_unfold Let_def split: if_splits)
qed

lemma round64_le_grid:
  assumes "round64 x = Fin y" and "x \<le> of_int n * pow2 (ulp_exp x)"
  shows "y \<le> of_int n * pow2 (ulp_exp x)"
proof -
  have "x / pow2 (ulp_exp x) \<le> of_int n"
    using assms(2) pow2_pos [of "ulp_exp x"] by (simp add: pos_divide_le_eq)
  then have "round_half_even (x / pow2 (ulp_exp x)) \<le> n" by (rule rhe_le_int)
  then have "(of_int (round_half_even (x / pow2 (ulp_exp x))) :: rat) \<le> of_int n" by simp
  then show ?thesis
    unfolding round64_Fin [OF assms(1)] using pow2_pos [of "ulp_exp x"]
    by (simp add: mult_right_mono)
qed

lemma round64_ge_grid:
  assumes "round64 x = Fin y" and "of_int n * pow2 (ulp_exp x) \<le> x"
  shows "of_int n * pow2 (ulp_exp x) \<le> y"
proof -
  have "of_int n \<le> x / pow2 (ulp_exp x)"
    using assms(2) pow2_pos [of "ulp_exp x"] by (simp add: pos_le_divide_eq)
  then have "n \<le> round_half_even (x / pow2 (ulp_exp x))" by (rule rhe_ge_int)
  then have "(of_int n :: rat) \<le> of_int (round_half_even (x / pow2 (ulp_exp x)))" by simp
  then show ?thesis
    unfolding round64_Fin [OF assms(1)] using pow2_pos [of "ulp_exp x"]
    by (simp add: mult_right_mono)
qed

lemma round64_nonneg:
  assumes "round64 x = Fin y" and "0 \<le> x"
  shows "0 \<le> y"
  using round64_ge_grid [OF assms(1), of 0] assms(2) by simp

lemma round64_nonpos:
  assumes "round64 x = Fin y" and "x \<le> 0"
  shows "y \<le> 0"
  using round64_le_grid [OF assms(1), of 0] assms(2) by simp

lemma round64_error:
  assumes "round64 x = Fin y"
  shows "\<bar>y - x\<bar> \<le> pow2 (ulp_exp x) / 2"
proof -
  let ?e = "ulp_exp x"
  let ?m = "round_half_even (x / pow2 ?e)"
  have "y - x = (of_int ?m - x / pow2 ?e) * pow2 ?e"
    using pow2_pos [of ?e] by (simp add: round64_Fin [OF assms] algebra_simps)
  then have "\<bar>y - x\<bar> = \<bar>of_int ?m - x / pow2 ?e\<bar> * pow2 ?e"
    using pow2_pos [of ?e] by (simp add: abs_mult)
  also have "\<dots> \<le> (1 / 2) * pow2 ?e"
    using rhe_err [of "x / pow2 ?e"] pow2_pos [of ?e] by (intro mult_right_mono) simp_all
  finally show ?thesis by simp
qed

text \<open>Powers of two from the unit in the last place upwards are on the grid.\<close>

lemma pow2_grid:
  assumes "e \<le> k"
  shows "pow2 k = 2 ^ nat (k - e) * pow2 e"
proof -
  have "pow2 k = pow2 (k - e) * pow2 e" by (simp add: pow2_add [symmetric])
  with assms show ?thesis by (simp add: pow2_of_nat)
qed

lemma round64_le_pow2:
  assumes "round64 x = Fin y" and "x \<le> pow2 k" and "ulp_exp x \<le> k"
  shows "y \<le> pow2 k"
  using round64_le_grid [OF assms(1), of "2 ^ nat (k - ulp_exp x)"] assms(2)
  by (simp add: pow2_grid [OF assms(3), symmetric])

lemma round64_ge_pow2:
  assumes "round64 x = Fin y" and "pow2 k \<le> x" and "ulp_exp x \<le> k"
  shows "pow2 k \<le> y"
  using round64_ge_grid [OF assms(1), of "2 ^ nat (k - ulp_exp x)"] assms(2)
  by (simp add: pow2_grid [OF assms(3), symmetric])

lemma round64_ge_neg_pow2:
  assumes "round64 x = Fin y" and "- pow2 k \<le> x" and "ulp_exp x \<le> k"
  shows "- pow2 k \<le> y"
  using round64_ge_grid [OF assms(1), of "- (2 ^ nat (k - ulp_exp x))"] assms(2)
  by (simp add: pow2_grid [OF assms(3), symmetric])

lemma round64_le_neg_pow2:
  assumes "round64 x = Fin y" and "x \<le> - pow2 k" and "ulp_exp x \<le> k"
  shows "y \<le> - pow2 k"
  using round64_le_grid [OF assms(1), of "- (2 ^ nat (k - ulp_exp x))"] assms(2)
  by (simp add: pow2_grid [OF assms(3), symmetric])

lemma ulp_exp_upper:
  assumes "x \<noteq> 0"
  shows "\<bar>x\<bar> < pow2 (ulp_exp x + 53)"
proof -
  have "\<bar>x\<bar> < pow2 (ilog2 \<bar>x\<bar> + 1)" using assms by (intro ilog2_bounds) simp
  also have "\<dots> \<le> pow2 (ulp_exp x + 53)" by (intro pow2_mono) (simp add: ulp_exp_def)
  finally show ?thesis .
qed

lemma ulp_exp_normal:
  assumes "x \<noteq> 0" and "- 1022 \<le> ilog2 \<bar>x\<bar>"
  shows "ulp_exp x = ilog2 \<bar>x\<bar> - 52" and "pow2 (ulp_exp x + 52) \<le> \<bar>x\<bar>"
proof -
  show e: "ulp_exp x = ilog2 \<bar>x\<bar> - 52" using assms(2) by (simp add: ulp_exp_def)
  show "pow2 (ulp_exp x + 52) \<le> \<bar>x\<bar>"
    using ilog2_bounds(1) [of "\<bar>x\<bar>"] assms(1) by (simp add: e)
qed

lemma ulp_exp_mono:
  assumes "x \<noteq> 0" and "\<bar>x\<bar> \<le> \<bar>y\<bar>"
  shows "ulp_exp x \<le> ulp_exp y"
  using ilog2_mono [of "\<bar>x\<bar>" "\<bar>y\<bar>"] assms by (simp add: ulp_exp_def)

lemma ulp_exp_less:
  assumes "x \<noteq> 0" and "ulp_exp x < ulp_exp y"
  shows "ulp_exp y = ilog2 \<bar>y\<bar> - 52" and "ilog2 \<bar>x\<bar> < ilog2 \<bar>y\<bar>"
  using assms by (auto simp: ulp_exp_def max_def split: if_splits)

lemma round64_mono_pos:
  assumes "0 < x" and "x \<le> y" and "round64 x = Fin a" and "round64 y = Fin b"
  shows "a \<le> b"
proof -
  have y: "0 < y" using assms by simp
  have le: "ulp_exp x \<le> ulp_exp y" using assms(1,2) by (intro ulp_exp_mono) simp_all
  show ?thesis
  proof (cases "ulp_exp x = ulp_exp y")
    case True
    have "x / pow2 (ulp_exp y) \<le> y / pow2 (ulp_exp y)"
      using assms(2) pow2_pos [of "ulp_exp y"] by (simp add: divide_right_mono)
    then have "(of_int (round_half_even (x / pow2 (ulp_exp y))) :: rat)
               \<le> of_int (round_half_even (y / pow2 (ulp_exp y)))"
      by (simp add: rhe_mono)
    then show ?thesis
      unfolding round64_Fin [OF assms(3)] round64_Fin [OF assms(4)] True
      using pow2_pos [of "ulp_exp y"] by (simp add: mult_right_mono)
  next
    case False
    with le have lt: "ulp_exp x < ulp_exp y" by simp
    let ?k = "ilog2 \<bar>y\<bar>"
    have x0: "x \<noteq> 0" using assms(1) by simp
    note f = ulp_exp_less [OF x0 lt]
    have "x < pow2 (ilog2 x + 1)" using assms(1) by (rule ilog2_bounds)
    also have "\<dots> \<le> pow2 ?k" using f(2) assms(1) by (intro pow2_mono) simp
    finally have xk: "x \<le> pow2 ?k" by simp
    have ky: "pow2 ?k \<le> y" using ilog2_bounds(1) [OF y] y by simp
    have "a \<le> pow2 ?k" using lt f(1) by (intro round64_le_pow2 [OF assms(3) xk]) simp
    moreover have "pow2 ?k \<le> b" using f(1) by (intro round64_ge_pow2 [OF assms(4) ky]) simp
    ultimately show ?thesis by simp
  qed
qed

lemma round64_mono_neg:
  assumes "y < 0" and "x \<le> y" and "round64 x = Fin a" and "round64 y = Fin b"
  shows "a \<le> b"
proof -
  have x: "x < 0" using assms by simp
  have le: "ulp_exp y \<le> ulp_exp x" using assms(1,2) by (intro ulp_exp_mono) simp_all
  show ?thesis
  proof (cases "ulp_exp x = ulp_exp y")
    case True
    have "x / pow2 (ulp_exp y) \<le> y / pow2 (ulp_exp y)"
      using assms(2) pow2_pos [of "ulp_exp y"] by (simp add: divide_right_mono)
    then have "(of_int (round_half_even (x / pow2 (ulp_exp y))) :: rat)
               \<le> of_int (round_half_even (y / pow2 (ulp_exp y)))"
      by (simp add: rhe_mono)
    then show ?thesis
      unfolding round64_Fin [OF assms(3)] round64_Fin [OF assms(4)] True
      using pow2_pos [of "ulp_exp y"] by (simp add: mult_right_mono)
  next
    case False
    with le have lt: "ulp_exp y < ulp_exp x" by simp
    let ?k = "ilog2 \<bar>x\<bar>"
    have y0: "y \<noteq> 0" using assms(1) by simp
    note f = ulp_exp_less [OF y0 lt]
    have "\<bar>y\<bar> < pow2 (ilog2 \<bar>y\<bar> + 1)" using assms(1) by (intro ilog2_bounds) simp
    also have "\<dots> \<le> pow2 ?k" using f(2) by (intro pow2_mono) simp
    finally have yk: "- pow2 ?k \<le> y" using assms(1) by simp
    have "pow2 ?k \<le> \<bar>x\<bar>" using x by (intro ilog2_bounds) simp
    then have kx: "x \<le> - pow2 ?k" using x by simp
    have "a \<le> - pow2 ?k" using f(1) by (intro round64_le_neg_pow2 [OF assms(3) kx]) simp
    moreover have "- pow2 ?k \<le> b"
      using lt f(1) by (intro round64_ge_neg_pow2 [OF assms(4) yk]) simp
    ultimately show ?thesis by simp
  qed
qed

lemma round64_mono:
  assumes "x \<le> y" and "round64 x = Fin a" and "round64 y = Fin b"
  shows "a \<le> b"
proof -
  consider "0 < x" | "y < 0" | "x \<le> 0" "0 \<le> y" by linarith
  then show ?thesis
  proof cases
    case 1
    then show ?thesis using assms by (rule round64_mono_pos)
  next
    case 2
    then show ?thesis using assms by (rule round64_mono_neg)
  next
    case 3
    with round64_nonpos [OF assms(2)] round64_nonneg [OF assms(3)] show ?thesis by simp
  qed
qed

lemma round64_finite:
  assumes "\<bar>x\<bar> < pow2 1023"
  shows "\<exists>y. round64 x = Fin y"
proof (cases "x = 0")
  case True
  then show ?thesis by (simp add: round64_unfold)
next
  case False
  have "ilog2 \<bar>x\<bar> < 1023"
  proof (rule ccontr)
    assume "\<not> ilog2 \<bar>x\<bar> < 1023"
    then have "pow2 1023 \<le> pow2 (ilog2 \<bar>x\<bar>)" by (intro pow2_mono) simp
    also have "\<dots> \<le> \<bar>x\<bar>" using False by (intro ilog2_bounds) simp
    finally show False using assms by simp
  qed
  then have "ulp_exp x < 971" by (simp add: ulp_exp_def)
  then show ?thesis using False by (simp add: round64_unfold Let_def)
qed

lemma round64_grid_exact:
  assumes "x = of_int k * pow2 (ulp_exp x)" and "ulp_exp x < 971"
  shows "round64 x = Fin x"
proof (cases "x = 0")
  case True
  then show ?thesis by (simp add: round64_unfold)
next
  case False
  have "x / pow2 (ulp_exp x) = of_int k"
    using assms(1) pow2_pos [of "ulp_exp x"] by (simp add: divide_eq_eq)
  then have m: "round_half_even (x / pow2 (ulp_exp x)) = k" by simp
  have "Fin (of_int k * pow2 (ulp_exp x)) = Fin x" using assms(1) by simp
  then show ?thesis using False assms(2) by (simp add: round64_unfold Let_def m)
qed

lemma round64_of_int_exact:
  assumes "\<bar>n\<bar> \<le> 2 ^ 53"
  shows "round64 (of_int n) = Fin (of_int n)"
proof (cases "n = 0")
  case True
  then show ?thesis by (simp add: round64_unfold)
next
  case False
  let ?x = "of_int n :: rat"
  have x0: "?x \<noteq> 0" using False by simp
  have one: "pow2 0 \<le> \<bar>?x\<bar>" using False by (simp add: pow2_def flip: of_int_abs)
  have il0: "0 \<le> ilog2 \<bar>?x\<bar>"
  proof (rule ccontr)
    assume "\<not> 0 \<le> ilog2 \<bar>?x\<bar>"
    then have "pow2 (ilog2 \<bar>?x\<bar> + 1) \<le> pow2 0" by (intro pow2_mono) simp
    with ilog2_bounds(2) [of "\<bar>?x\<bar>"] x0 one show False by simp
  qed
  then have e: "ulp_exp ?x = ilog2 \<bar>?x\<bar> - 52" by (simp add: ulp_exp_def)
  have up: "\<bar>?x\<bar> \<le> pow2 53" using assms by (simp add: pow2_def flip: of_int_abs)
  have il: "ilog2 \<bar>?x\<bar> \<le> 53"
  proof (rule ccontr)
    assume "\<not> ilog2 \<bar>?x\<bar> \<le> 53"
    then have "pow2 54 \<le> pow2 (ilog2 \<bar>?x\<bar>)" by (intro pow2_mono) simp
    also have "\<dots> \<le> \<bar>?x\<bar>" using x0 by (intro ilog2_bounds) simp
    finally have "pow2 54 \<le> pow2 53" using up by simp
    then show False by (simp add: pow2_def)
  qed
  show ?thesis
  proof (cases "ilog2 \<bar>?x\<bar> = 53")
    case True
    have "pow2 53 \<le> \<bar>?x\<bar>" using ilog2_bounds(1) [of "\<bar>?x\<bar>"] x0 by (simp add: True)
    with up have "\<bar>?x\<bar> = 2 ^ 53" by (simp add: pow2_def)
    then have "?x = of_int (if 0 < n then 2 ^ 52 else - (2 ^ 52)) * pow2 1"
      by (auto simp: pow2_def abs_if split: if_splits)
    then show ?thesis
      using round64_grid_exact [of ?x "if 0 < n then 2 ^ 52 else - (2 ^ 52)"] e True
      by simp
  next
    case False
    with il have le: "ulp_exp ?x \<le> 0" by (simp add: e)
    then have "pow2 (ulp_exp ?x) = 1 / 2 ^ nat (- ulp_exp ?x)"
      by (auto simp: pow2_def)
    then have "?x = of_int (n * 2 ^ nat (- ulp_exp ?x)) * pow2 (ulp_exp ?x)" by simp
    then show ?thesis
      using le by (intro round64_grid_exact [of ?x "n * 2 ^ nat (- ulp_exp ?x)"]) simp_all
  qed
qed

lemma round64_upper:
  assumes "0 < x" and "round64 x = Fin y"
  shows "y \<le> x * (1 + pow2 (- 53)) \<or> y \<le> pow2 (- 1022)"
proof (cases "- 1022 \<le> ilog2 \<bar>x\<bar>")
  case True
  have x0: "x \<noteq> 0" using assms(1) by simp
  note n = ulp_exp_normal [OF x0 True]
  have "pow2 (ulp_exp x) = pow2 (ulp_exp x + 52) * pow2 (- 52)"
    by (simp add: pow2_add [symmetric])
  also have "\<dots> \<le> x * pow2 (- 52)"
    using n(2) assms(1) pow2_pos [of "- 52"] by (intro mult_right_mono) simp_all
  finally have "pow2 (ulp_exp x) / 2 \<le> x * pow2 (- 53)"
    by (simp add: pow2_def)
  moreover have "y - x \<le> \<bar>y - x\<bar>" by simp
  ultimately have "y - x \<le> x * pow2 (- 53)"
    using round64_error [OF assms(2)] by linarith
  then show ?thesis by (simp add: algebra_simps)
next
  case False
  then have e: "ulp_exp x = - 1074" by (simp add: ulp_exp_def)
  have "x < pow2 (ilog2 x + 1)" using assms(1) by (rule ilog2_bounds)
  also have "\<dots> \<le> pow2 (- 1022)" using False assms(1) by (intro pow2_mono) simp
  finally have "x \<le> pow2 (- 1022)" by simp
  then have "y \<le> pow2 (- 1022)" by (rule round64_le_pow2 [OF assms(2)]) (simp add: e)
  then show ?thesis ..
qed

subsection \<open>Raising computations\<close>

lemma bind_Inr: "bind m f = Inr v \<longleftrightarrow> (\<exists>u. m = Inr u \<and> f u = Inr v)"
  by (cases m) (simp_all add: bind_def)

lemma py_int_Inr: "py_int x = Inr n \<longleftrightarrow> (\<exists>q. x = Fin q \<and> n = trunc q)"
  by (cases x) auto

lemma int_to_float_Inr: "int_to_float n = Inr x \<Longrightarrow> \<exists>q. x = Fin q \<and> round64 (of_int n) = Fin q"
  by (cases "round64 (of_int n)") (auto simp: int_to_float_def)

subsection \<open>Strength\<close>

text \<open>
  C10. The claim: the \<open>total_strength\<close> of the status query equals the strength
  \<open>calculate_military_strength\<close> computes. The status query sums
  \<open>quantity * technology_level\<close> and leaves the per-category multiplier out: for a newly
  created country, with its initial 100 infantry, 10 tanks, 5 ships and 5 aircraft, the
  status reports 120 and the battle strength is 240.
\<close>

theorem status_strength_differs:
  "map_sum id st_total_strength (get_country_status 1 fresh_db) = Inr 120
   \<and> calculate_military_strength fresh_db 1 = 240"
  by code_simp

subsection \<open>Rejected attacks\<close>

text \<open>
  C7. An attack of a country on itself, or by an attacker whose strength is not positive,
  raises an exception (\<open>ValidationError\<close> or \<open>ResourceError\<close>) and leaves the store as it
  was: no battle row, no change of any unit or resource.
\<close>

theorem attack_rejected:
  assumes "attacker_id = defender_id \<or> calculate_military_strength db attacker_id \<le> 0"
  shows "attack attacker_id defender_id env db = (Inl ValidationError, db)
         \<or> attack attacker_id defender_id env db = (Inl ResourceError, db)"
  using assms by (auto simp: attack_def Let_def split: option.splits)

theorem attack_rejected_witness:
  "attack 1 1 pinned_env fresh_db = (Inl ValidationError, fresh_db)
   \<and> attack 1 2 pinned_env unarmed_db = (Inl ResourceError, unarmed_db)"
proof -
  have a: "attack 1 1 pinned_env fresh_db \<noteq> (Inl ResourceError, fresh_db)"
    by code_simp
  have b: "calculate_military_strength unarmed_db 1 \<le> 0"
    by code_simp
  have c: "attack 1 2 pinned_env unarmed_db \<noteq> (Inl ValidationError, unarmed_db)"
    by code_simp
  from attack_rejected [of 1 1 fresh_db pinned_env] a
       attack_rejected [of 1 2 unarmed_db pinned_env] b c
  show ?thesis by simp
qed

subsection \<open>Battle resolution\<close>

lemma lit_12: "lit (6 / 5) = Fin (5404319552844595 / 4503599627370496)"
  by code_simp

lemma lit_08: "lit (4 / 5) = Fin (3602879701896397 / 4503599627370496)"
  by code_simp

lemma battle_outcome_cases:
  "(battle_outcome x = VICTORY \<longleftrightarrow> fless (lit (12 / 10)) x)
   \<and> (battle_outcome x = DEFEAT \<longleftrightarrow> fless x (lit (8 / 10)))
   \<and> (battle_outcome x = DRAW \<longleftrightarrow> \<not> fless (lit (12 / 10)) x \<and> \<not> fless x (lit (8 / 10)))"
  by (cases x) (auto simp: battle_outcome_def lit_12 lit_08)

text \<open>
  The pinned scenario: strengths 1000 and 500, the multiplier drawn as 1.0 and the base
  casualty rate as 0.2. The winner's rate is the double product \<open>0.2 * 0.7\<close>, which is
  0.13999999999999999, not 0.14, and \<open>1000\<close> times it is 139.99999999999997.
\<close>

lemma pinned_battle:
  "calculate_battle_result pinned_env 1000 500 (nation 1 ''A'') (nation 2 ''B'')
     = Inr (VICTORY, 139, 130, 10, 150)"
  by code_simp

text \<open>
  The claim's scenario asks for 140 casualties of the attacker; the code returns 139.
\<close>

theorem pinned_battle_counterexample:
  "calculate_battle_result pinned_env 1000 500 (nation 1 ''A'') (nation 2 ''B'')
     \<noteq> Inr (VICTORY, 140, 130, 10, 150)
   \<and> fst (snd (projr (calculate_battle_result pinned_env 1000 500
                          (nation 1 ''A'') (nation 2 ''B'')))) = 139"
  by (simp add: pinned_battle)

text \<open>
  C2, amended. A battle that resolves has the outcome and the casualties of the rules,
  computed in double precision: the adjusted ratio is the rounded product of the rounded
  quotient \<open>attacker_strength / max(defender_strength, 1)\<close> and the multiplier; the
  outcome is VICTORY iff it exceeds the double 1.2, DEFEAT iff it is below the double 0.8,
  DRAW otherwise; the winner's rate is the rounded \<open>base * 0.7\<close>, the loser's the rounded
  \<open>base * 1.3\<close>, both are \<open>base\<close> on a draw; each side's casualties are the rounded
  product \<open>strength * rate\<close> truncated to an integer. In the pinned scenario the result is
  VICTORY with 139 casualties of the attacker and 130 of the defender.
\<close>

theorem battle_result_rules:
  "(calculate_battle_result env attacker_strength defender_strength attacker defender
      = Inr (result, casualties_attacker, casualties_defender, territory_gained,
             resources_captured)
    \<longrightarrow> (\<exists>strength_ratio adjusted_ratio attacker_rate defender_rate af df x y.
          int_truediv attacker_strength (max defender_strength 1) = Inr strength_ratio
          \<and> adjusted_ratio = fmul strength_ratio (random_factor env)
          \<and> (result = VICTORY \<longleftrightarrow> fless (lit (12 / 10)) adjusted_ratio)
          \<and> (result = DEFEAT \<longleftrightarrow> fless adjusted_ratio (lit (8 / 10)))
          \<and> (result = DRAW \<longleftrightarrow>
               \<not> fless (lit (12 / 10)) adjusted_ratio \<and> \<not> fless adjusted_ratio (lit (8 / 10)))
          \<and> (result = VICTORY \<longrightarrow>
               attacker_rate = fmul (base_casualty_rate env) (lit (7 / 10))
               \<and> defender_rate = fmul (base_casualty_rate env) (lit (13 / 10)))
          \<and> (result = DEFEAT \<longrightarrow>
               attacker_rate = fmul (base_casualty_rate env) (lit (13 / 10))
               \<and> defender_rate = fmul (base_casualty_rate env) (lit (7 / 10)))
          \<and> (result = DRAW \<longrightarrow>
               attacker_rate = base_casualty_rate env
               \<and> defender_rate = base_casualty_rate env)
          \<and> int_to_float attacker_strength = Inr af
          \<and> fmul af attacker_rate = Fin x \<and> casualties_attacker = trunc x
          \<and> int_to_float defender_strength = Inr df
          \<and> fmul df defender_rate = Fin y \<and> casualties_defender = trunc y))
   \<and> calculate_battle_result pinned_env 1000 500 (nation 1 ''A'') (nation 2 ''B'')
       = Inr (VICTORY, 139, 130, 10, 150)"
proof (intro conjI impI)
  assume r: "calculate_battle_result env attacker_strength defender_strength attacker defender
      = Inr (result, casualties_attacker, casualties_defender, territory_gained,
             resources_captured)"
  then obtain strength_ratio where
    sr: "int_truediv attacker_strength (max defender_strength 1) = Inr strength_ratio"
    by (auto simp: calculate_battle_result_def bind_Inr)
  define adjusted_ratio where "adjusted_ratio = fmul strength_ratio (random_factor env)"
  define rates where "rates = casualty_rates (battle_outcome adjusted_ratio) (base_casualty_rate env)"
  from r sr have res: "result = battle_outcome adjusted_ratio"
    by (auto simp: calculate_battle_result_def bind_Inr Let_def adjusted_ratio_def
             split: prod.splits if_splits)
  from r sr have ca: "bind (int_mul_float attacker_strength (fst rates)) py_int
                      = Inr casualties_attacker"
    by (auto simp: calculate_battle_result_def bind_Inr Let_def adjusted_ratio_def rates_def
             split: prod.splits if_splits)
  from r sr have cd: "bind (int_mul_float defender_strength (snd rates)) py_int
                      = Inr casualties_defender"
    by (auto simp: calculate_battle_result_def bind_Inr Let_def adjusted_ratio_def rates_def
             split: prod.splits if_splits)
  from ca obtain af x where
    af: "int_to_float attacker_strength = Inr af" "fmul af (fst rates) = Fin x"
        "casualties_attacker = trunc x"
    by (auto simp: bind_Inr int_mul_float_def py_int_Inr)
  from cd obtain df y where
    df: "int_to_float defender_strength = Inr df" "fmul df (snd rates) = Fin y"
        "casualties_defender = trunc y"
    by (auto simp: bind_Inr int_mul_float_def py_int_Inr)
  have rs: "result = VICTORY \<longrightarrow>
               fst rates = fmul (base_casualty_rate env) (lit (7 / 10))
               \<and> snd rates = fmul (base_casualty_rate env) (lit (13 / 10))"
        "result = DEFEAT \<longrightarrow>
               fst rates = fmul (base_casualty_rate env) (lit (13 / 10))
               \<and> snd rates = fmul (base_casualty_rate env) (lit (7 / 10))"
        "result = DRAW \<longrightarrow>
               fst rates = base_casualty_rate env \<and> snd rates = base_casualty_rate env"
    by (simp_all add: rates_def res [symmetric] casualty_rates_def)
  show "\<exists>strength_ratio adjusted_ratio attacker_rate defender_rate af df x y.
          int_truediv attacker_strength (max defender_strength 1) = Inr strength_ratio
          \<and> adjusted_ratio = fmul strength_ratio (random_factor env)
          \<and> (result = VICTORY \<longleftrightarrow> fless (lit (12 / 10)) adjusted_ratio)
          \<and> (result = DEFEAT \<longleftrightarrow> fless adjusted_ratio (lit (8 / 10)))
          \<and> (result = DRAW \<longleftrightarrow>
               \<not> fless (lit (12 / 10)) adjusted_ratio \<and> \<not> fless adjusted_ratio (lit (8 / 10)))
          \<and> (result = VICTORY \<longrightarrow>
               attacker_rate = fmul (base_casualty_rate env) (lit (7 / 10))
               \<and> defender_rate = fmul (base_casualty_rate env) (lit (13 / 10)))
          \<and> (result = DEFEAT \<longrightarrow>
               attacker_rate = fmul (base_casualty_rate env) (lit (13 / 10))
               \<and> defender_rate = fmul (base_casualty_rate env) (lit (7 / 10)))
          \<and> (result = DRAW \<longrightarrow>
               attacker_rate = base_casualty_rate env
               \<and> defender_rate = base_casualty_rate env)
          \<and> int_to_float attacker_strength = Inr af
          \<and> fmul af attacker_rate = Fin x \<and> casualties_attacker = trunc x
          \<and> int_to_float defender_strength = Inr df
          \<and> fmul df defender_rate = Fin y \<and> casualties_defender = trunc y"
    using sr adjusted_ratio_def battle_outcome_cases [of adjusted_ratio] rs af df
    unfolding res [symmetric] by blast
next
  show "calculate_battle_result pinned_env 1000 500 (nation 1 ''A'') (nation 2 ''B'')
       = Inr (VICTORY, 139, 130, 10, 150)"
    by (rule pinned_battle)
qed

theorem battle_result_rules_witness:
  "calculate_battle_result pinned_env 1000 500 (nation 1 ''A'') (nation 2 ''B'')
     = Inr (VICTORY, 139, 130, 10, 150)
   \<and> (\<exists>af x. int_to_float 1000 = Inr af
         \<and> fmul af (fmul (base_casualty_rate pinned_env) (lit (7 / 10))) = Fin x
         \<and> 139 = trunc x)"
proof -
  note c = pinned_battle
  from battle_result_rules [of pinned_env 1000 500 "nation 1 ''A''" "nation 2 ''B''"
      VICTORY 139 130 10 150] c
  show ?thesis by blast
qed

end
